theory Spec2Isabelle
  imports Complex_Main
begin

section \<open>Tabular datasets\<close>

text \<open>
  The program (\<^verbatim>\<open>comparador.py\<close>) summarises pandas data frames. A frame is an ordered
  list of labelled columns over a shared row index. What the summariser asks of a column
  is its dtype (through \<^verbatim>\<open>is_numeric_dtype\<close> and \<^verbatim>\<open>is_string_dtype\<close>), its null mask and
  its values, so a column carries its dtype in its constructor:

  \<^item> \<open>Numerica\<close>: a numeric dtype (int64, float64, bool as \<^verbatim>\<open>read_csv\<close> infers them);
    a cell is a number or missing (NaN). Numbers are idealised as reals: rounding,
    infinities and overflow of float64 are not modelled.
  \<^item> \<open>Cadena\<close>: a dtype that pandas takes for a string dtype; a cell is a text or missing.
  \<^item> \<open>Objeto\<close>: any other dtype (an object column that pandas does not take for strings,
    dates, ...); a cell is some value or missing.

  Texts are \<open>string\<close>s, one \<open>char\<close> per code point (code points below 256).
\<close>

datatype valor = VNum real | VTexto string

datatype serie =
    Numerica "real option list"
  | Cadena "string option list"
  | Objeto "valor option list"

record dataframe =
  index_len :: nat
  columns :: "(string \<times> serie) list"

text \<open>A float result: \<open>None\<close> is "not a number".\<close>

type_synonym float64 = "real option"

abbreviation nan :: float64 where
  "nan \<equiv> None"

subsection \<open>Series operations (pandas)\<close>

text \<open>\<^verbatim>\<open>pd.api.types.is_numeric_dtype\<close> and \<^verbatim>\<open>pd.api.types.is_string_dtype\<close>.\<close>

fun is_numeric_dtype :: "serie \<Rightarrow> bool" where
  "is_numeric_dtype (Numerica _) = True"
| "is_numeric_dtype _ = False"

fun is_string_dtype :: "serie \<Rightarrow> bool" where
  "is_string_dtype (Cadena _) = True"
| "is_string_dtype _ = False"

text \<open>\<^verbatim>\<open>serie.isna()\<close>: the null mask, one flag per row.\<close>

fun isna :: "serie \<Rightarrow> bool list" where
  "isna (Numerica xs) = map (\<lambda>x. x = None) xs"
| "isna (Cadena xs) = map (\<lambda>x. x = None) xs"
| "isna (Objeto xs) = map (\<lambda>x. x = None) xs"

text \<open>\<^verbatim>\<open>mask.sum()\<close>: the number of set flags.\<close>

definition sum_mask :: "bool list \<Rightarrow> nat" where
  "sum_mask bs = length (filter id bs)"

text \<open>\<^verbatim>\<open>len(serie)\<close>, \<^verbatim>\<open>serie.empty\<close> and \<^verbatim>\<open>serie.count()\<close> (the non-null cells).\<close>

definition len_serie :: "serie \<Rightarrow> nat" where
  "len_serie s = length (isna s)"

definition empty_serie :: "serie \<Rightarrow> bool" where
  "empty_serie s = (len_serie s = 0)"

definition count_serie :: "serie \<Rightarrow> nat" where
  "count_serie s = length (filter Not (isna s))"

text \<open>\<^verbatim>\<open>dropna()\<close> on the cells of a column: the present values, in row order.\<close>

fun dropna :: "'a option list \<Rightarrow> 'a list" where
  "dropna [] = []"
| "dropna (None # xs) = dropna xs"
| "dropna (Some x # xs) = x # dropna xs"

text \<open>
  The values of a numeric column and of a string column. Each is only read on a column of
  that dtype; on any other column it is empty.
\<close>

fun numeros :: "serie \<Rightarrow> real option list" where
  "numeros (Numerica xs) = xs"
| "numeros _ = []"

fun textos :: "serie \<Rightarrow> string option list" where
  "textos (Cadena xs) = xs"
| "textos _ = []"

text \<open>
  The statistics of a numeric column: \<^verbatim>\<open>mean()\<close>, \<^verbatim>\<open>std()\<close> (sample deviation,
  \<^verbatim>\<open>ddof=1\<close>), \<^verbatim>\<open>min()\<close>, \<^verbatim>\<open>median()\<close> and \<^verbatim>\<open>max()\<close>. All skip the missing cells, and
  give NaN when no cell is left; \<^verbatim>\<open>std()\<close> gives NaN when fewer than two are left.
\<close>

definition mean_serie :: "serie \<Rightarrow> float64" where
  "mean_serie s =
     (let v = dropna (numeros s)
      in if v = [] then nan else Some (sum_list v / real (length v)))"

definition std_serie :: "serie \<Rightarrow> float64" where
  "std_serie s =
     (let v = dropna (numeros s); n = length v
      in if n < 2 then nan
         else let m = sum_list v / real n
              in Some (sqrt (sum_list (map (\<lambda>x. (x - m)\<^sup>2) v) / real (n - 1))))"

definition min_serie :: "serie \<Rightarrow> float64" where
  "min_serie s = (case dropna (numeros s) of [] \<Rightarrow> nan | x # xs \<Rightarrow> Some (fold min xs x))"

definition max_serie :: "serie \<Rightarrow> float64" where
  "max_serie s = (case dropna (numeros s) of [] \<Rightarrow> nan | x # xs \<Rightarrow> Some (fold max xs x))"

definition median_serie :: "serie \<Rightarrow> float64" where
  "median_serie s =
     (let v = sort (dropna (numeros s)); n = length v
      in if n = 0 then nan
         else if odd n then Some (v ! (n div 2))
         else Some ((v ! (n div 2 - 1) + v ! (n div 2)) / 2))"

text \<open>
  \<^verbatim>\<open>unique()\<close>: the distinct values in the order of their first appearance (pandas
  fills a hash table in row order).
\<close>

definition unique :: "'a list \<Rightarrow> 'a list" where
  "unique xs = fold (\<lambda>x seen. if x \<in> set seen then seen else seen @ [x]) xs []"

text \<open>
  \<^verbatim>\<open>value_counts()\<close>: each distinct present value with the number of its occurrences,
  by descending count. The sort is taken to be stable, so values of equal count stay in
  the order of their first appearance. \<^verbatim>\<open>head(5)\<close> keeps the first five entries.
\<close>

definition value_counts :: "serie \<Rightarrow> (string \<times> nat) list" where
  "value_counts s =
     (let v = dropna (textos s)
      in sort_key (\<lambda>(x, c). - int c) (map (\<lambda>x. (x, count_list v x)) (unique v)))"

definition head_pd :: "nat \<Rightarrow> 'a list \<Rightarrow> 'a list" where
  "head_pd n xs = take n xs"

subsection \<open>Text formatting (Python)\<close>

text \<open>\<^verbatim>\<open>str(c)\<close> of a count, and \<^verbatim>\<open>", ".join(...)\<close>.\<close>

definition digit_char :: "nat \<Rightarrow> char" where
  "digit_char d = ''0123456789'' ! d"

fun str_nat :: "nat \<Rightarrow> string" where
  "str_nat n = (if n < 10 then [digit_char n] else str_nat (n div 10) @ [digit_char (n mod 10)])"

declare str_nat.simps [simp del]

fun join :: "string \<Rightarrow> string list \<Rightarrow> string" where
  "join sep [] = []"
| "join sep [x] = x"
| "join sep (x # y # zs) = x @ sep @ join sep (y # zs)"

subsection \<open>Floating point: the product with 0.8\<close>

text \<open>
  The threshold \<^verbatim>\<open>n_total * 0.8\<close> is computed in IEEE binary64. The literal \<^verbatim>\<open>0.8\<close>
  denotes the double \<open>7205759403792794 / 2^53\<close>; the integer \<^verbatim>\<open>n_total\<close> is converted to
  the nearest double; the product is rounded to the nearest double, ties to even. For the
  non-negative values at hand a double is a natural number of at most 53 significant bits
  times a power of two, so rounding is done on naturals.
\<close>

fun bit_length :: "nat \<Rightarrow> nat" where
  "bit_length n = (if n = 0 then 0 else Suc (bit_length (n div 2)))"

declare bit_length.simps [simp del]

definition round53 :: "nat \<Rightarrow> nat" where
  "round53 p =
     (let s = bit_length p - 53;
          q = p div 2 ^ s;
          r = p mod 2 ^ s
      in (if 2 * r > 2 ^ s \<or> (2 * r = 2 ^ s \<and> odd q) then q + 1 else q) * 2 ^ s)"

definition mul_0_8 :: "nat \<Rightarrow> real" where
  "mul_0_8 n = real (round53 (round53 n * 7205759403792794)) / 2 ^ 53"

section \<open>The aggregate summary\<close>

text \<open>
  \<^verbatim>\<open>
  def resumen_general(df):
      data = {
          "Filas": [len(df)],
          "Columnas": [len(df.columns)],
          "Nulos totales": [int(df.isna().sum().sum())],
      }
      return pd.DataFrame(data)
  \<close>
  The one-row result frame is a record of its three cells. \<^verbatim>\<open>df.isna().sum()\<close> sums
  the null mask of each column, and the second \<^verbatim>\<open>sum()\<close> adds these up.
\<close>

record resumen =
  Filas :: nat
  Columnas :: nat
  Nulos_totales :: nat

definition resumen_general :: "dataframe \<Rightarrow> resumen" where
  "resumen_general df =
     \<lparr> Filas = index_len df,
       Columnas = length (columns df),
       Nulos_totales = sum_list (map (\<lambda>(col, s). sum_mask (isna s)) (columns df)) \<rparr>"

text \<open>
  A frame is rectangular when every column has one cell per row of the index; pandas
  keeps this for every frame it builds.
\<close>

definition rectangular :: "dataframe \<Rightarrow> bool" where
  "rectangular df = list_all (\<lambda>(col, s). len_serie s = index_len df) (columns df)"

text \<open>The cell at row \<open>i\<close> of column \<open>j\<close> is missing.\<close>

definition celda_nula :: "dataframe \<Rightarrow> nat \<Rightarrow> nat \<Rightarrow> bool" where
  "celda_nula df i j = isna (snd (columns df ! j)) ! i"

section \<open>The classification of columns\<close>

text \<open>
  \<^verbatim>\<open>
  def resumen_por_tipo(df):
      resumen_numericas = []
      resumen_texto_repetido = []
      resumen_texto_unico = []
      for col in df.columns:
          serie = df[col]
          nulos = serie.isna().sum()
          no_nulos = len(serie) - nulos
          if pd.api.types.is_numeric_dtype(serie):
              resumen_numericas.append({"Columna": col, "count": int(serie.count()),
                  "mean": float(serie.mean()) if not serie.empty else np.nan, ...})
          elif pd.api.types.is_string_dtype(serie):
              valores_unicos = serie.dropna().unique()
              n_unicos = len(valores_unicos)
              n_total = len(serie)
              if n_unicos < (n_total * 0.8):
                  top_values = serie.value_counts().head(5)
                  top_str = ", ".join(
                      [f"{v} ({c})" for v, c in zip(top_values.index, top_values.values)])
                  resumen_texto_repetido.append({"Columna": col,
                      "Categorias unicas": n_unicos, "Top 5 valores": top_str})
              else:
                  resumen_texto_unico.append({"Columna": col, "Valores no nulos": no_nulos,
                      "Nulos": nulos, "Valores unicos": n_unicos})
      return (pd.DataFrame(resumen_numericas), pd.DataFrame(resumen_texto_repetido),
              pd.DataFrame(resumen_texto_unico))
  \<close>
  Each appended dictionary is a record; each result frame is the list of its rows.
\<close>

record fila_numerica =
  num_Columna :: string
  num_count :: nat
  num_mean :: float64
  num_std :: float64
  num_min :: float64
  num_median :: float64
  num_max :: float64

record fila_texto_repetido =
  rep_Columna :: string
  rep_Categorias_unicas :: nat
  rep_Top_5_valores :: string

record fila_texto_unico =
  uni_Columna :: string
  uni_Valores_no_nulos :: nat
  uni_Nulos :: nat
  uni_Valores_unicos :: nat

text \<open>
  The state of the loop: the frame the function was given, which stays reachable
  through \<^verbatim>\<open>df\<close>, and the three lists it appends to.
\<close>

record estado =
  df_var :: dataframe
  resumen_numericas :: "fila_numerica list"
  resumen_texto_repetido :: "fila_texto_repetido list"
  resumen_texto_unico :: "fila_texto_unico list"

text \<open>
  \<^verbatim>\<open>df[col]\<close>: the column labelled \<open>col\<close>. Labels are unique in every frame that
  \<^verbatim>\<open>read_csv\<close> builds (it renames repeated headers); with repeated labels pandas
  returns a sub-frame instead, which is outside this model.
\<close>

definition getitem :: "dataframe \<Rightarrow> string \<Rightarrow> serie option" where
  "getitem df col = map_of (columns df) col"

definition fila_num :: "string \<Rightarrow> serie \<Rightarrow> fila_numerica" where
  "fila_num col serie =
     \<lparr> num_Columna = col,
       num_count = count_serie serie,
       num_mean = (if \<not> empty_serie serie then mean_serie serie else nan),
       num_std = (if \<not> empty_serie serie then std_serie serie else nan),
       num_min = (if \<not> empty_serie serie then min_serie serie else nan),
       num_median = (if \<not> empty_serie serie then median_serie serie else nan),
       num_max = (if \<not> empty_serie serie then max_serie serie else nan) \<rparr>"

definition top_str :: "serie \<Rightarrow> string" where
  "top_str serie =
     (let top_values = head_pd 5 (value_counts serie)
      in join '', '' (map (\<lambda>(v, c). v @ '' ('' @ str_nat c @ '')'') top_values))"

text \<open>The loop body, for the label \<open>col\<close>.\<close>

definition paso :: "string \<Rightarrow> estado \<Rightarrow> estado" where
  "paso col st =
     (case getitem (df_var st) col of
        None \<Rightarrow> st
      | Some serie \<Rightarrow>
          let nulos = sum_mask (isna serie);
              no_nulos = len_serie serie - nulos
          in if is_numeric_dtype serie then
               st\<lparr> resumen_numericas := resumen_numericas st @ [fila_num col serie] \<rparr>
             else if is_string_dtype serie then
               let valores_unicos = unique (dropna (textos serie));
                   n_unicos = length valores_unicos;
                   n_total = len_serie serie
               in if real n_unicos < mul_0_8 n_total then
                    st\<lparr> resumen_texto_repetido := resumen_texto_repetido st @
                          [\<lparr> rep_Columna = col,
                             rep_Categorias_unicas = n_unicos,
                             rep_Top_5_valores = top_str serie \<rparr>] \<rparr>
                  else
                    st\<lparr> resumen_texto_unico := resumen_texto_unico st @
                          [\<lparr> uni_Columna = col,
                             uni_Valores_no_nulos = no_nulos,
                             uni_Nulos = nulos,
                             uni_Valores_unicos = n_unicos \<rparr>] \<rparr>
             else st)"

definition inicio :: "dataframe \<Rightarrow> estado" where
  "inicio df = \<lparr> df_var = df, resumen_numericas = [], resumen_texto_repetido = [],
                 resumen_texto_unico = [] \<rparr>"

definition bucle :: "dataframe \<Rightarrow> estado" where
  "bucle df = fold paso (map fst (columns df)) (inicio df)"

definition resumen_por_tipo ::
  "dataframe \<Rightarrow> fila_numerica list \<times> fila_texto_repetido list \<times> fila_texto_unico list" where
  "resumen_por_tipo df =
     (let st = bucle df
      in (resumen_numericas st, resumen_texto_repetido st, resumen_texto_unico st))"

text \<open>What one pass of the loop body, for the label \<open>col\<close>, appends to each list.\<close>

definition num_de :: "dataframe \<Rightarrow> string \<Rightarrow> fila_numerica list" where
  "num_de df col = resumen_numericas (paso col (inicio df))"

definition rep_de :: "dataframe \<Rightarrow> string \<Rightarrow> fila_texto_repetido list" where
  "rep_de df col = resumen_texto_repetido (paso col (inicio df))"

definition uni_de :: "dataframe \<Rightarrow> string \<Rightarrow> fila_texto_unico list" where
  "uni_de df col = resumen_texto_unico (paso col (inicio df))"

subsection \<open>Vocabulary of the properties\<close>

text \<open>A column whose cells are all missing, and a label with no record in any table.\<close>

definition todos_nulos :: "serie \<Rightarrow> bool" where
  "todos_nulos s = list_all id (isna s)"

definition excluida ::
  "string \<Rightarrow> fila_numerica list \<times> fila_texto_repetido list \<times> fila_texto_unico list \<Rightarrow> bool" where
  "excluida col r =
     (case r of (num, rep, uni) \<Rightarrow>
        col \<notin> num_Columna ` set num \<and> col \<notin> rep_Columna ` set rep \<and> col \<notin> uni_Columna ` set uni)"


subsection \<open>Example datasets\<close>

text \<open>
  A frame with missing cells; the ten-row text column of letters; a numeric column and a
  text column with only missing cells; a text column of no rows; an object column; and the
  numeric column \<open>[7]\<close>.
\<close>

definition df_nulos :: dataframe where
  "df_nulos = \<lparr> index_len = 2,
      columns = [(''a'', Numerica [Some 1, None]), (''b'', Cadena [None, None])] \<rparr>"

definition serie_letras :: serie where
  "serie_letras = Cadena [Some ''a'', Some ''a'', Some ''a'', Some ''b'', Some ''b'',
                          Some ''c'', Some ''d'', Some ''e'', Some ''f'', Some ''g'']"

definition df_letras :: dataframe where
  "df_letras = \<lparr> index_len = 10, columns = [(''letra'', serie_letras)] \<rparr>"

definition df_todo_nulo :: dataframe where
  "df_todo_nulo = \<lparr> index_len = 2, columns = [(''x'', Numerica [None, None])] \<rparr>"

definition df_cadena_nula :: dataframe where
  "df_cadena_nula = \<lparr> index_len = 2, columns = [(''s'', Cadena [None, None])] \<rparr>"

definition df_cadena_vacia :: dataframe where
  "df_cadena_vacia = \<lparr> index_len = 0, columns = [(''s'', Cadena [])] \<rparr>"

definition df_objeto :: dataframe where
  "df_objeto = \<lparr> index_len = 2, columns = [(''o'', Objeto [Some (VTexto ''7''), None])] \<rparr>"


section \<open>The catalog client and the local loader\<close>






subsection \<open>Python on JSON values\<close>















subsection \<open>Listing institutions, datasets and resources\<close>







subsection \<open>The size of a resource\<close>









subsection \<open>Loading a dataset\<close>





subsection \<open>Example environments\<close>






section \<open>Properties of the aggregate summary\<close>

lemma sum_mask_count:
  "sum_mask bs = (\<Sum>i<length bs. if bs ! i then 1 else 0)"
proof (induction bs rule: rev_induct)
  case Nil
  then show ?case by (simp add: sum_mask_def)
next
  case (snoc b bs)
  have "(\<Sum>i<length bs. if (bs @ [b]) ! i then 1 else 0 :: nat)
      = (\<Sum>i<length bs. if bs ! i then 1 else 0)"
    by (rule sum.cong) (simp_all add: nth_append)
  with snoc show ?case
    by (simp add: sum_mask_def)
qed

lemma sum_list_nth_sum:
  "sum_list (map f xs) = (\<Sum>j<length xs. f (xs ! j) :: nat)"
proof (induction xs rule: rev_induct)
  case Nil
  then show ?case by simp
next
  case (snoc x xs)
  have "(\<Sum>j<length xs. f ((xs @ [x]) ! j)) = (\<Sum>j<length xs. f (xs ! j))"
    by (rule sum.cong) (simp_all add: nth_append)
  with snoc show ?case by simp
qed

section \<open>Properties of the floating-point threshold\<close>

lemma bit_length_upper: "n < 2 ^ bit_length n"
proof (induction n rule: bit_length.induct)
  case (1 n)
  show ?case
  proof (cases "n = 0")
    case True
    then show ?thesis by (simp add: bit_length.simps)
  next
    case False
    with 1 have "n div 2 < 2 ^ bit_length (n div 2)" by simp
    then have "n < 2 * 2 ^ bit_length (n div 2)" by linarith
    with False show ?thesis by (simp add: bit_length.simps [of n])
  qed
qed

lemma bit_length_le: "n < 2 ^ k \<Longrightarrow> bit_length n \<le> k"
proof (induction n arbitrary: k rule: bit_length.induct)
  case (1 n)
  show ?case
  proof (cases "n = 0")
    case True
    then show ?thesis by (simp add: bit_length.simps)
  next
    case False
    with "1.prems" obtain j where k: "k = Suc j"
      by (cases k) auto
    with "1.prems" have "n div 2 < 2 ^ j" by simp
    with 1 False have "bit_length (n div 2) \<le> j" by simp
    with False k show ?thesis by (simp add: bit_length.simps [of n])
  qed
qed

lemma round53_exact: "p < 2 ^ 53 \<Longrightarrow> round53 p = p"
proof -
  assume "p < 2 ^ 53"
  then have "bit_length p - 53 = 0"
    using bit_length_le [of p 53] by simp
  then show ?thesis by (simp add: round53_def)
qed

lemma round53_near:
  fixes p :: nat
  defines "t \<equiv> 2 ^ (bit_length p - 53)"
  shows "2 * round53 p \<le> 2 * p + t" and "2 * p \<le> 2 * round53 p + t" and "t dvd round53 p"
proof -
  define q where "q = p div t"
  define r where "r = p mod t"
  have p: "p = q * t + r" by (simp add: q_def r_def)
  have rt: "r < t" by (simp add: r_def t_def)
  have R: "round53 p = (if 2 * r > t \<or> (2 * r = t \<and> odd q) then q + 1 else q) * t"
    by (simp add: round53_def Let_def q_def r_def t_def)
  let ?q' = "if 2 * r > t \<or> (2 * r = t \<and> odd q) then q + 1 else q"
  have "2 * (?q' * t) \<le> 2 * (q * t + r) + t"
    by (auto simp: algebra_simps)
  then show "2 * round53 p \<le> 2 * p + t"
    by (simp only: R flip: p)
  have "2 * (q * t + r) \<le> 2 * (?q' * t) + t"
    using rt by (auto simp: algebra_simps)
  then show "2 * p \<le> 2 * round53 p + t"
    by (simp only: R flip: p)
  show "t dvd round53 p"
    unfolding R by simp
qed

lemma mul_0_8_threshold:
  assumes n: "n < 2 ^ 51"
  shows "real u < mul_0_8 n \<longleftrightarrow> 5 * u < 4 * n"
proof -
  define A :: nat where "A = 2 ^ 53"
  define P where "P = n * 7205759403792794"
  define s where "s = bit_length P - 53"
  define T :: nat where "T = 2 ^ s"
  define R where "R = round53 P"
  have A53: "A = 9007199254740992" by (simp add: A_def)
  have rn: "round53 n = n"
    using n by (intro round53_exact) simp
  have five: "5 * P = 4 * n * A + 2 * n"
    by (simp add: P_def A53)
  have "P < 2 ^ 51 * 2 ^ 53"
  proof -
    have "P \<le> n * 2 ^ 53" by (simp add: P_def)
    also have "\<dots> < 2 ^ 51 * 2 ^ 53" using n by simp
    finally show ?thesis .
  qed
  then have "P < 2 ^ 104" by simp
  then have "bit_length P \<le> 104" by (rule bit_length_le)
  then have s51: "s \<le> 51" by (simp add: s_def)
  then have "T \<le> 2 ^ 51" unfolding T_def by (intro power_increasing) simp_all
  then have T51: "5 * T < 2 * A" by (simp add: A53)
  have "P < 2 ^ bit_length P" by (rule bit_length_upper)
  also have "\<dots> \<le> 2 ^ (s + 53)"
    by (intro power_increasing) (simp_all add: s_def)
  finally have PT: "P < T * A" by (simp add: T_def A_def power_add)
  have small: "4 * n < 5 * T"
  proof (rule ccontr)
    assume "\<not> 4 * n < 5 * T"
    then have "5 * T \<le> 4 * n" by simp
    then have "5 * T * A \<le> 4 * n * A" by (rule mult_le_mono1)
    with five PT show False by simp
  qed
  have near1: "2 * R \<le> 2 * P + T" and near2: "2 * P \<le> 2 * R + T" and dvd: "T dvd R"
    unfolding R_def T_def s_def by (rule round53_near)+
  have "T dvd A" unfolding T_def A_def using s51 by (intro le_imp_power_dvd) simp
  then have dvdu: "T dvd u * A" by simp
  have "real u < mul_0_8 n \<longleftrightarrow> real (u * A) < real R"
    by (simp add: mul_0_8_def rn R_def P_def A_def field_simps)
  also have "\<dots> \<longleftrightarrow> u * A < R" by (simp only: of_nat_less_iff)
  also have "\<dots> \<longleftrightarrow> 5 * u < 4 * n"
  proof
    assume lt: "u * A < R"
    from dvd dvdu obtain a b where a: "R = T * a" and b: "u * A = T * b"
      by (auto elim!: dvdE)
    with lt have "b < a" by simp
    then have "T * (b + 1) \<le> T * a" by (intro mult_le_mono2) simp
    with a b have step: "u * A + T \<le> R" by simp
    show "5 * u < 4 * n"
    proof (rule ccontr)
      assume "\<not> 5 * u < 4 * n"
      then have "4 * n \<le> 5 * u" by simp
      then have "4 * n * A \<le> 5 * u * A" by (rule mult_le_mono1)
      with five step near1 small show False by simp
    qed
  next
    assume "5 * u < 4 * n"
    then have "5 * u + 1 \<le> 4 * n" by simp
    then have "(5 * u + 1) * A \<le> 4 * n * A" by (rule mult_le_mono1)
    then have "5 * (u * A) + A \<le> 4 * n * A" by (simp add: algebra_simps)
    with five near2 T51 show "u * A < R" by simp
  qed
  finally show ?thesis .
qed

section \<open>Properties of the loop\<close>

lemma paso_df_var: "df_var (paso col st) = df_var st"
  by (simp add: paso_def Let_def split: option.splits)

lemma paso_aporta:
  "paso col st = st\<lparr> resumen_numericas := resumen_numericas st @ num_de (df_var st) col,
                      resumen_texto_repetido := resumen_texto_repetido st @ rep_de (df_var st) col,
                      resumen_texto_unico := resumen_texto_unico st @ uni_de (df_var st) col \<rparr>"
  by (simp add: paso_def num_de_def rep_de_def uni_de_def inicio_def Let_def
      split: option.splits)

lemma fold_paso:
  "fold paso cs st =
     st\<lparr> resumen_numericas := resumen_numericas st @ concat (map (num_de (df_var st)) cs),
         resumen_texto_repetido := resumen_texto_repetido st @ concat (map (rep_de (df_var st)) cs),
         resumen_texto_unico := resumen_texto_unico st @ concat (map (uni_de (df_var st)) cs) \<rparr>"
proof (induction cs arbitrary: st)
  case Nil
  then show ?case by simp
next
  case (Cons c cs)
  show ?case
    by (simp add: Cons.IH paso_df_var) (simp add: paso_aporta [of c st])
qed

lemma resumen_por_tipo_concat:
  "resumen_por_tipo df =
     (concat (map (num_de df) (map fst (columns df))),
      concat (map (rep_de df) (map fst (columns df))),
      concat (map (uni_de df) (map fst (columns df))))"
  by (simp add: resumen_por_tipo_def bucle_def fold_paso Let_def) (simp add: inicio_def)

lemma bucle_df_var: "df_var (bucle df) = df"
  by (simp add: bucle_def fold_paso) (simp add: inicio_def)

lemma getitem_columna:
  "distinct (map fst (columns df)) \<Longrightarrow> (col, s) \<in> set (columns df) \<Longrightarrow> getitem df col = Some s"
  by (simp add: getitem_def)

lemma num_de_Some:
  "getitem df col = Some s \<Longrightarrow>
   num_de df col = (if is_numeric_dtype s then [fila_num col s] else [])"
  by (simp add: num_de_def paso_def inicio_def Let_def)

lemma rep_de_Some:
  "getitem df col = Some s \<Longrightarrow>
   rep_de df col =
     (if \<not> is_numeric_dtype s \<and> is_string_dtype s
         \<and> real (length (unique (dropna (textos s)))) < mul_0_8 (len_serie s)
      then [\<lparr> rep_Columna = col,
              rep_Categorias_unicas = length (unique (dropna (textos s))),
              rep_Top_5_valores = top_str s \<rparr>]
      else [])"
  by (simp add: rep_de_def paso_def inicio_def Let_def)

lemma uni_de_Some:
  "getitem df col = Some s \<Longrightarrow>
   uni_de df col =
     (if \<not> is_numeric_dtype s \<and> is_string_dtype s
         \<and> \<not> real (length (unique (dropna (textos s)))) < mul_0_8 (len_serie s)
      then [\<lparr> uni_Columna = col,
              uni_Valores_no_nulos = len_serie s - sum_mask (isna s),
              uni_Nulos = sum_mask (isna s),
              uni_Valores_unicos = length (unique (dropna (textos s))) \<rparr>]
      else [])"
  by (simp add: uni_de_def paso_def inicio_def Let_def)

lemma num_de_Columna: "r \<in> set (num_de df c) \<Longrightarrow> num_Columna r = c"
  by (auto simp: num_de_def paso_def inicio_def Let_def fila_num_def split: option.splits if_splits)

lemma rep_de_Columna: "r \<in> set (rep_de df c) \<Longrightarrow> rep_Columna r = c"
  by (auto simp: rep_de_def paso_def inicio_def Let_def split: option.splits if_splits)

lemma uni_de_Columna: "r \<in> set (uni_de df c) \<Longrightarrow> uni_Columna r = c"
  by (auto simp: uni_de_def paso_def inicio_def Let_def split: option.splits if_splits)

lemma unique_fold:
  "distinct acc \<Longrightarrow>
   distinct (fold (\<lambda>x seen. if x \<in> set seen then seen else seen @ [x]) xs acc)
   \<and> set (fold (\<lambda>x seen. if x \<in> set seen then seen else seen @ [x]) xs acc) = set acc \<union> set xs"
  by (induction xs arbitrary: acc) auto

lemma distinct_unique: "distinct (unique xs)"
  using unique_fold [of "[]" xs] by (simp add: unique_def)

lemma set_unique: "set (unique xs) = set xs"
  using unique_fold [of "[]" xs] by (simp add: unique_def)

lemma length_unique: "length (unique xs) = card (set xs)"
  using distinct_card [OF distinct_unique, of xs] by (simp add: set_unique)

lemma nulos_columna:
  "sum_mask (isna s) = (\<Sum>i<len_serie s. if isna s ! i then 1 else 0)"
  by (simp add: sum_mask_count len_serie_def)
section \<open>The aggregate summary counts rows, columns and missing cells\<close>

text \<open>
  Claim C3. For a dataset of \<open>R\<close> rows and \<open>C\<close> columns (either may be zero),
  \<open>resumen_general\<close> returns the row count \<open>R\<close>, the column count \<open>C\<close>, and as total
  null count the number of missing cells found by visiting every cell, row by row. The
  function has no failing branch.
\<close>

theorem resumen_general_counts:
  assumes "rectangular df"
  shows "Filas (resumen_general df) = index_len df
       \<and> Columnas (resumen_general df) = length (columns df)
       \<and> Nulos_totales (resumen_general df)
           = (\<Sum>i<index_len df. \<Sum>j<length (columns df). if celda_nula df i j then 1 else 0)"
proof -
  let ?cs = "columns df"
  have len: "len_serie (snd (?cs ! j)) = index_len df" if "j < length ?cs" for j
  proof -
    have "?cs ! j \<in> set ?cs" using that by simp
    with assms show ?thesis
      by (auto simp: rectangular_def list_all_iff)
  qed
  have "Nulos_totales (resumen_general df)
      = (\<Sum>j<length ?cs. sum_mask (isna (snd (?cs ! j))))"
    by (simp add: resumen_general_def sum_list_nth_sum case_prod_unfold)
  also have "\<dots> = (\<Sum>j<length ?cs. \<Sum>i<index_len df. if celda_nula df i j then 1 else 0)"
    by (rule sum.cong) (simp_all add: nulos_columna len celda_nula_def)
  also have "\<dots> = (\<Sum>i<index_len df. \<Sum>j<length ?cs. if celda_nula df i j then 1 else 0)"
    by (rule sum.swap)
  finally show ?thesis
    by (simp add: resumen_general_def)
qed

theorem resumen_general_counts_witness:
  "rectangular df_nulos
   \<and> resumen_general df_nulos = \<lparr> Filas = 2, Columnas = 2, Nulos_totales = 3 \<rparr>
   \<and> (\<Sum>i<index_len df_nulos. \<Sum>j<length (columns df_nulos).
         if celda_nula df_nulos i j then 1 else 0) = (3::nat)"
proof -
  have r: "rectangular df_nulos"
    by (simp add: rectangular_def df_nulos_def len_serie_def)
  have v: "resumen_general df_nulos = \<lparr> Filas = 2, Columnas = 2, Nulos_totales = 3 \<rparr>"
    by (simp add: resumen_general_def df_nulos_def sum_mask_def)
  have "Nulos_totales (resumen_general df_nulos)
      = (\<Sum>i<index_len df_nulos. \<Sum>j<length (columns df_nulos).
           if celda_nula df_nulos i j then 1 else 0)"
    using resumen_general_counts [OF r] by blast
  then have "(\<Sum>i<index_len df_nulos. \<Sum>j<length (columns df_nulos).
           if celda_nula df_nulos i j then 1 else 0) = (3::nat)"
    by (simp only: v resumen.simps)
  with r v show ?thesis by blast
qed

section \<open>The empty dataset\<close>

text \<open>
  Claim C6. For the dataset of no rows and no columns, \<open>resumen_general\<close> returns
  \<open>(0, 0, 0)\<close> and \<open>resumen_por_tipo\<close> returns three empty tables; neither function has a
  failing branch.
\<close>

theorem empty_dataset_summaries:
  "resumen_general \<lparr> index_len = 0, columns = [] \<rparr>
     = \<lparr> Filas = 0, Columnas = 0, Nulos_totales = 0 \<rparr>
   \<and> resumen_por_tipo \<lparr> index_len = 0, columns = [] \<rparr> = ([], [], [])"
proof
  show "resumen_general \<lparr> index_len = 0, columns = [] \<rparr>
     = \<lparr> Filas = 0, Columnas = 0, Nulos_totales = 0 \<rparr>"
    by (simp add: resumen_general_def)
  show "resumen_por_tipo \<lparr> index_len = 0, columns = [] \<rparr> = ([], [], [])"
    by (simp add: resumen_por_tipo_def bucle_def inicio_def)
qed

section \<open>The summariser leaves its input alone\<close>


section \<open>String columns: categorical or unique text\<close>

lemma round53_pos: "0 < p \<Longrightarrow> 0 < round53 p"
proof (rule ccontr)
  assume p: "0 < p" and "\<not> 0 < round53 p"
  then have z: "round53 p = 0" by simp
  have le: "2 * p \<le> 2 ^ (bit_length p - 53)"
    using round53_near(2) [of p] by (simp add: z)
  have "(2::nat) ^ (bit_length p - 53) \<le> 2 ^ bit_length p"
    by (intro power_increasing) simp_all
  moreover have up: "p < 2 ^ bit_length p" by (rule bit_length_upper)
  ultimately show False
  proof (cases "bit_length p \<le> 53")
    case True
    with le p show False by simp
  next
    case False
    then obtain k where k: "bit_length p = Suc k" "53 \<le> k"
      by (cases "bit_length p") auto
    have "p < 2 ^ k \<Longrightarrow> False"
      using bit_length_le [of p k] k by simp
    then have "2 ^ k \<le> p" by (cases "p < 2 ^ k") auto
    moreover have "(2::nat) ^ (k - 52) \<le> 2 ^ k"
      by (intro power_increasing) simp_all
    moreover have "2 * p \<le> 2 ^ (k - 52)"
      using le k by simp
    ultimately have "2 * p \<le> p" by linarith
    with p show False by simp
  qed
qed

lemma mul_0_8_pos: "0 < n \<Longrightarrow> 0 < mul_0_8 n"
  by (simp add: mul_0_8_def round53_pos)

lemma mul_0_8_zero: "mul_0_8 0 = 0"
  by (simp add: mul_0_8_def round53_def bit_length.simps)

lemma mul_0_8_exact:
  assumes "n < 2 ^ 51"
  shows "real u < mul_0_8 n \<longleftrightarrow> real u < 0.8 * real n"
proof -
  have "real u < 0.8 * real n \<longleftrightarrow> real (5 * u) < real (4 * n)"
    by (simp add: field_simps)
  also have "\<dots> \<longleftrightarrow> 5 * u < 4 * n"
    by (simp only: of_nat_less_iff)
  finally show ?thesis
    using mul_0_8_threshold [OF assms, of u] by simp
qed

lemma len_serie_Cadena: "is_string_dtype s \<Longrightarrow> len_serie s = length (textos s)"
  by (cases s) (simp_all add: len_serie_def)

lemma nulos_Cadena:
  "is_string_dtype s \<Longrightarrow> sum_mask (isna s) = length (filter (\<lambda>x. x = None) (textos s))"
  by (cases s) (simp_all add: sum_mask_def filter_map comp_def)

lemma no_nulos_Cadena:
  "is_string_dtype s \<Longrightarrow>
   len_serie s - sum_mask (isna s) = length (filter (\<lambda>x. x \<noteq> None) (textos s))"
proof -
  assume s: "is_string_dtype s"
  have "length (textos s) = length (filter (\<lambda>x. x = None) (textos s))
      + length (filter (\<lambda>x. x \<noteq> None) (textos s))"
    by (rule sum_length_filter_compl [symmetric])
  with s show ?thesis
    by (simp add: len_serie_Cadena nulos_Cadena)
qed

lemma string_not_numeric: "is_string_dtype s \<Longrightarrow> \<not> is_numeric_dtype s"
  by (cases s) simp_all

lemma num_names:
  "distinct (map fst (columns df)) \<Longrightarrow> (col, s) \<in> set (columns df) \<Longrightarrow> \<not> is_numeric_dtype s \<Longrightarrow>
   col \<notin> num_Columna ` set (concat (map (num_de df) (map fst (columns df))))"
proof
  assume d: "distinct (map fst (columns df))" and m: "(col, s) \<in> set (columns df)"
    and n: "\<not> is_numeric_dtype s"
    and "col \<in> num_Columna ` set (concat (map (num_de df) (map fst (columns df))))"
  then obtain r c where r: "r \<in> set (num_de df c)" and c: "num_Columna r = col"
    by auto
  then have "c = col" by (simp add: num_de_Columna)
  with r d m n show False
    by (simp add: num_de_Some getitem_columna)
qed

lemma rep_names:
  "distinct (map fst (columns df)) \<Longrightarrow> (col, s) \<in> set (columns df) \<Longrightarrow> rep_de df col = [] \<Longrightarrow>
   col \<notin> rep_Columna ` set (concat (map (rep_de df) (map fst (columns df))))"
proof
  assume e: "rep_de df col = []"
    and "col \<in> rep_Columna ` set (concat (map (rep_de df) (map fst (columns df))))"
  then obtain r c where r: "r \<in> set (rep_de df c)" and c: "rep_Columna r = col"
    by auto
  then have "c = col" by (simp add: rep_de_Columna)
  with r e show False by simp
qed

lemma uni_names:
  "distinct (map fst (columns df)) \<Longrightarrow> (col, s) \<in> set (columns df) \<Longrightarrow> uni_de df col = [] \<Longrightarrow>
   col \<notin> uni_Columna ` set (concat (map (uni_de df) (map fst (columns df))))"
proof
  assume e: "uni_de df col = []"
    and "col \<in> uni_Columna ` set (concat (map (uni_de df) (map fst (columns df))))"
  then obtain r c where r: "r \<in> set (uni_de df c)" and c: "uni_Columna r = col"
    by auto
  then have "c = col" by (simp add: uni_de_Columna)
  with r e show False by simp
qed

lemma in_concat_de:
  "(col, s) \<in> set (columns df) \<Longrightarrow> r \<in> set (f col) \<Longrightarrow>
   r \<in> set (concat (map f (map fst (columns df))))"
  by force

text \<open>
  Claim C1. A string-dtype column is classified as categorical exactly when
  \<open>n_unique < 0.8 \<times> n_total\<close>, where \<open>n_unique\<close> is the number of distinct non-null values
  and \<open>n_total\<close> the number of rows, nulls included: its record, with the label,
  \<open>n_unique\<close> and the top-values text, is then in the categorical table and no record of
  that label is in the unique-text table. Otherwise its record, with the label, the
  non-null count, the null count and \<open>n_unique\<close>, is in the unique-text table and no
  record of that label is in the categorical table. The comparison is the program's,
  computed in binary64; it agrees with the exact one for columns of fewer than \<open>2^51\<close> rows.
\<close>

theorem string_column_classification:
  assumes "distinct (map fst (columns df))"
    and "(col, s) \<in> set (columns df)"
    and "is_string_dtype s"
    and "len_serie s < 2 ^ 51"
  defines "n_unique \<equiv> card (set (dropna (textos s)))"
    and "n_total \<equiv> length (textos s)"
  shows "case resumen_por_tipo df of (num, rep, uni) \<Rightarrow>
           (real n_unique < 0.8 * real n_total \<longrightarrow>
              \<lparr> rep_Columna = col, rep_Categorias_unicas = n_unique,
                rep_Top_5_valores = top_str s \<rparr> \<in> set rep
              \<and> col \<notin> uni_Columna ` set uni)
         \<and> (\<not> real n_unique < 0.8 * real n_total \<longrightarrow>
              \<lparr> uni_Columna = col,
                uni_Valores_no_nulos = length (filter (\<lambda>x. x \<noteq> None) (textos s)),
                uni_Nulos = length (filter (\<lambda>x. x = None) (textos s)),
                uni_Valores_unicos = n_unique \<rparr> \<in> set uni
              \<and> col \<notin> rep_Columna ` set rep)
         \<and> col \<notin> num_Columna ` set num"
proof -
  have g: "getitem df col = Some s"
    using assms(1,2) by (rule getitem_columna)
  have nn: "\<not> is_numeric_dtype s"
    using assms(3) by (rule string_not_numeric)
  have cmp: "real (length (unique (dropna (textos s)))) < mul_0_8 (len_serie s)
      \<longleftrightarrow> real n_unique < 0.8 * real n_total"
    using mul_0_8_exact [OF assms(4)] assms(3)
    by (simp add: length_unique n_unique_def n_total_def len_serie_Cadena)
  have num: "col \<notin> num_Columna ` set (concat (map (num_de df) (map fst (columns df))))"
    using assms(1,2) nn by (rule num_names)
  show ?thesis
  proof (cases "real n_unique < 0.8 * real n_total")
    case True
    have rep: "rep_de df col = [\<lparr> rep_Columna = col, rep_Categorias_unicas = n_unique,
                rep_Top_5_valores = top_str s \<rparr>]"
      using True cmp nn assms(3) by (simp add: rep_de_Some [OF g] length_unique n_unique_def)
    have "uni_de df col = []"
      using True cmp by (simp add: uni_de_Some [OF g])
    then have "col \<notin> uni_Columna ` set (concat (map (uni_de df) (map fst (columns df))))"
      using assms(1,2) by (intro uni_names)
    moreover have "\<lparr> rep_Columna = col, rep_Categorias_unicas = n_unique,
                rep_Top_5_valores = top_str s \<rparr>
        \<in> set (concat (map (rep_de df) (map fst (columns df))))"
      using assms(2) by (rule in_concat_de) (simp add: rep)
    ultimately show ?thesis
      using True num by (simp add: resumen_por_tipo_concat)
  next
    case False
    have uni: "uni_de df col = [\<lparr> uni_Columna = col,
                uni_Valores_no_nulos = length (filter (\<lambda>x. x \<noteq> None) (textos s)),
                uni_Nulos = length (filter (\<lambda>x. x = None) (textos s)),
                uni_Valores_unicos = n_unique \<rparr>]"
    proof -
      have "uni_de df col = [\<lparr> uni_Columna = col,
                uni_Valores_no_nulos = len_serie s - sum_mask (isna s),
                uni_Nulos = sum_mask (isna s),
                uni_Valores_unicos = length (unique (dropna (textos s))) \<rparr>]"
        using False cmp nn assms(3) by (simp add: uni_de_Some [OF g])
      then show ?thesis
        by (simp only: no_nulos_Cadena [OF assms(3), unfolded nulos_Cadena [OF assms(3)]]
            nulos_Cadena [OF assms(3)] length_unique n_unique_def)
    qed
    have "rep_de df col = []"
      using False cmp by (simp add: rep_de_Some [OF g])
    then have "col \<notin> rep_Columna ` set (concat (map (rep_de df) (map fst (columns df))))"
      using assms(1,2) by (intro rep_names)
    moreover have "\<lparr> uni_Columna = col,
                uni_Valores_no_nulos = length (filter (\<lambda>x. x \<noteq> None) (textos s)),
                uni_Nulos = length (filter (\<lambda>x. x = None) (textos s)),
                uni_Valores_unicos = n_unique \<rparr>
        \<in> set (concat (map (uni_de df) (map fst (columns df))))"
      using assms(2) by (rule in_concat_de) (simp add: uni)
    ultimately show ?thesis
      using False num by (simp add: resumen_por_tipo_concat)
  qed
qed
lemma top_str_letras: "top_str serie_letras = ''a (3), b (2), c (1), d (1), e (1)''"
  by (simp add: top_str_def value_counts_def unique_def head_pd_def str_nat.simps
      digit_char_def serie_letras_def)

theorem string_column_classification_witness:
  "distinct (map fst (columns df_letras))
   \<and> (''letra'', serie_letras) \<in> set (columns df_letras)
   \<and> is_string_dtype serie_letras
   \<and> len_serie serie_letras < 2 ^ 51
   \<and> \<lparr> rep_Columna = ''letra'', rep_Categorias_unicas = 7,
       rep_Top_5_valores = ''a (3), b (2), c (1), d (1), e (1)'' \<rparr>
       \<in> set (fst (snd (resumen_por_tipo df_letras)))
   \<and> ''letra'' \<notin> uni_Columna ` set (snd (snd (resumen_por_tipo df_letras)))"
proof -
  have h1: "distinct (map fst (columns df_letras))"
    by (simp add: df_letras_def)
  have h2: "(''letra'', serie_letras) \<in> set (columns df_letras)"
    by (simp add: df_letras_def)
  have h3: "is_string_dtype serie_letras"
    by (simp add: serie_letras_def)
  have h4: "len_serie serie_letras < 2 ^ 51"
    by (simp add: serie_letras_def len_serie_def)
  have c: "card (set (dropna (textos serie_letras))) = 7"
    by (simp add: serie_letras_def)
  have n: "length (textos serie_letras) = 10"
    by (simp add: serie_letras_def)
  show ?thesis
    using string_column_classification [OF h1 h2 h3 h4] h1 h2 h3 h4
    by (simp add: c n top_str_letras split: prod.splits)
qed

section \<open>Columns left out of every table\<close>

text \<open>
  Claim C5, as stated: a column whose values are all null, and any column that is neither
  numeric-dtype nor string-dtype, is excluded from all three tables. The first half fails:
  the column \<open>x\<close> of \<open>df_todo_nulo\<close> has only missing cells and a numeric dtype (what
  \<^verbatim>\<open>read_csv\<close> gives a column of blanks), and it gets a record in the numeric table.
\<close>

theorem all_null_numeric_column_not_excluded:
  "todos_nulos (Numerica [None, None])
   \<and> resumen_por_tipo df_todo_nulo
       = ([\<lparr> num_Columna = ''x'', num_count = 0, num_mean = nan, num_std = nan,
             num_min = nan, num_median = nan, num_max = nan \<rparr>], [], [])
   \<and> \<not> excluida ''x'' (resumen_por_tipo df_todo_nulo)"
proof -
  have "resumen_por_tipo df_todo_nulo
       = ([\<lparr> num_Columna = ''x'', num_count = 0, num_mean = nan, num_std = nan,
             num_min = nan, num_median = nan, num_max = nan \<rparr>], [], [])"
    by (simp add: resumen_por_tipo_def bucle_def inicio_def paso_def getitem_def
        df_todo_nulo_def fila_num_def count_serie_def empty_serie_def len_serie_def
        mean_serie_def std_serie_def min_serie_def max_serie_def median_serie_def)
  then show ?thesis
    by (simp add: excluida_def todos_nulos_def)
qed

text \<open>
  Claim C5, amended: a column that is neither numeric-dtype nor string-dtype is excluded
  from all three tables, whatever its cells hold.
\<close>

theorem other_dtype_column_excluded:
  assumes "distinct (map fst (columns df))"
    and "(col, s) \<in> set (columns df)"
    and "\<not> is_numeric_dtype s"
    and "\<not> is_string_dtype s"
  shows "excluida col (resumen_por_tipo df)"
proof -
  have g: "getitem df col = Some s"
    using assms(1,2) by (rule getitem_columna)
  have "col \<notin> num_Columna ` set (concat (map (num_de df) (map fst (columns df))))"
    using assms(1,2,3) by (rule num_names)
  moreover have "rep_de df col = []"
    using assms(4) by (simp add: rep_de_Some [OF g])
  then have "col \<notin> rep_Columna ` set (concat (map (rep_de df) (map fst (columns df))))"
    using assms(1,2) by (intro rep_names)
  moreover have "uni_de df col = []"
    using assms(4) by (simp add: uni_de_Some [OF g])
  then have "col \<notin> uni_Columna ` set (concat (map (uni_de df) (map fst (columns df))))"
    using assms(1,2) by (intro uni_names)
  ultimately show ?thesis
    by (simp add: excluida_def resumen_por_tipo_concat)
qed

theorem other_dtype_column_excluded_witness:
  "distinct (map fst (columns df_objeto))
   \<and> (''o'', Objeto [Some (VTexto ''7''), None]) \<in> set (columns df_objeto)
   \<and> \<not> is_numeric_dtype (Objeto [Some (VTexto ''7''), None])
   \<and> \<not> is_string_dtype (Objeto [Some (VTexto ''7''), None])
   \<and> excluida ''o'' (resumen_por_tipo df_objeto)"
proof -
  have h1: "distinct (map fst (columns df_objeto))"
    by (simp add: df_objeto_def)
  have h2: "(''o'', Objeto [Some (VTexto ''7''), None]) \<in> set (columns df_objeto)"
    by (simp add: df_objeto_def)
  have h3: "\<not> is_numeric_dtype (Objeto [Some (VTexto ''7''), None])"
    by simp
  have h4: "\<not> is_string_dtype (Objeto [Some (VTexto ''7''), None])"
    by simp
  from other_dtype_column_excluded [OF h1 h2 h3 h4] h1 h2 h3 h4
  show ?thesis by blast
qed

section \<open>String columns with no value\<close>

text \<open>
  Claim C10. A string-dtype column with at least one row whose cells are all missing is
  classified as categorical, with category count 0 and an empty top-values text; it is
  neither left out nor classified as unique text. A string-dtype column with no rows is
  classified as unique text, with all three counts 0.
\<close>

theorem all_null_string_column:
  assumes "distinct (map fst (columns df))"
    and "(col, s) \<in> set (columns df)"
    and "is_string_dtype s"
    and "todos_nulos s"
  shows "case resumen_por_tipo df of (num, rep, uni) \<Rightarrow>
           (0 < len_serie s \<longrightarrow>
              \<lparr> rep_Columna = col, rep_Categorias_unicas = 0, rep_Top_5_valores = [] \<rparr> \<in> set rep
              \<and> col \<notin> uni_Columna ` set uni)
         \<and> (len_serie s = 0 \<longrightarrow>
              \<lparr> uni_Columna = col, uni_Valores_no_nulos = 0, uni_Nulos = 0,
                uni_Valores_unicos = 0 \<rparr> \<in> set uni
              \<and> col \<notin> rep_Columna ` set rep)
         \<and> col \<notin> num_Columna ` set num"
proof -
  obtain xs where s: "s = Cadena xs"
    using assms(3) by (cases s) simp_all
  have "\<forall>x\<in>set xs. x = None"
    using assms(4) by (simp add: s todos_nulos_def list_all_iff)
  then have d: "dropna xs = []"
    by (induction xs) simp_all
  have g: "getitem df col = Some s"
    using assms(1,2) by (rule getitem_columna)
  have num: "col \<notin> num_Columna ` set (concat (map (num_de df) (map fst (columns df))))"
    using assms(1,2) by (rule num_names) (simp add: s)
  have top: "top_str s = []"
    by (simp add: top_str_def value_counts_def head_pd_def unique_def s d)
  show ?thesis
  proof (cases "0 < len_serie s")
    case True
    then have lt: "real (length (unique (dropna (textos s)))) < mul_0_8 (len_serie s)"
      by (simp add: s d unique_def mul_0_8_pos)
    have rep: "rep_de df col
        = [\<lparr> rep_Columna = col, rep_Categorias_unicas = 0, rep_Top_5_valores = [] \<rparr>]"
      using lt by (simp add: rep_de_Some [OF g] top) (simp add: s d unique_def)
    have "uni_de df col = []"
      using lt by (simp add: uni_de_Some [OF g])
    then have "col \<notin> uni_Columna ` set (concat (map (uni_de df) (map fst (columns df))))"
      using assms(1,2) by (intro uni_names)
    moreover have "\<lparr> rep_Columna = col, rep_Categorias_unicas = 0, rep_Top_5_valores = [] \<rparr>
        \<in> set (concat (map (rep_de df) (map fst (columns df))))"
      using assms(2) by (rule in_concat_de) (simp add: rep)
    ultimately show ?thesis
      using True num by (simp add: resumen_por_tipo_concat)
  next
    case False
    then have z: "len_serie s = 0" by simp
    then have xs: "xs = []" by (simp add: s len_serie_def)
    have uni: "uni_de df col
        = [\<lparr> uni_Columna = col, uni_Valores_no_nulos = 0, uni_Nulos = 0,
             uni_Valores_unicos = 0 \<rparr>]"
      by (simp add: uni_de_Some [OF g] s xs len_serie_def mul_0_8_zero unique_def sum_mask_def)
    have "rep_de df col = []"
      by (simp add: rep_de_Some [OF g] s xs len_serie_def mul_0_8_zero unique_def)
    then have "col \<notin> rep_Columna ` set (concat (map (rep_de df) (map fst (columns df))))"
      using assms(1,2) by (intro rep_names)
    moreover have "\<lparr> uni_Columna = col, uni_Valores_no_nulos = 0, uni_Nulos = 0,
                uni_Valores_unicos = 0 \<rparr>
        \<in> set (concat (map (uni_de df) (map fst (columns df))))"
      using assms(2) by (rule in_concat_de) (simp add: uni)
    ultimately show ?thesis
      using z num by (simp add: resumen_por_tipo_concat)
  qed
qed

theorem all_null_string_column_witness:
  "distinct (map fst (columns df_cadena_nula))
   \<and> (''s'', Cadena [None, None]) \<in> set (columns df_cadena_nula)
   \<and> is_string_dtype (Cadena [None, None])
   \<and> todos_nulos (Cadena [None, None])
   \<and> 0 < len_serie (Cadena [None, None])
   \<and> \<lparr> rep_Columna = ''s'', rep_Categorias_unicas = 0, rep_Top_5_valores = [] \<rparr>
       \<in> set (fst (snd (resumen_por_tipo df_cadena_nula)))
   \<and> distinct (map fst (columns df_cadena_vacia))
   \<and> (''s'', Cadena []) \<in> set (columns df_cadena_vacia)
   \<and> todos_nulos (Cadena [])
   \<and> len_serie (Cadena []) = 0
   \<and> \<lparr> uni_Columna = ''s'', uni_Valores_no_nulos = 0, uni_Nulos = 0,
       uni_Valores_unicos = 0 \<rparr> \<in> set (snd (snd (resumen_por_tipo df_cadena_vacia)))"
proof -
  have a1: "distinct (map fst (columns df_cadena_nula))"
    by (simp add: df_cadena_nula_def)
  have a2: "(''s'', Cadena [None, None]) \<in> set (columns df_cadena_nula)"
    by (simp add: df_cadena_nula_def)
  have a3: "is_string_dtype (Cadena xs)" for xs
    by simp
  have a4: "todos_nulos (Cadena [None, None])"
    by (simp add: todos_nulos_def)
  have a5: "0 < len_serie (Cadena [None, None])"
    by (simp add: len_serie_def)
  have b1: "distinct (map fst (columns df_cadena_vacia))"
    by (simp add: df_cadena_vacia_def)
  have b2: "(''s'', Cadena []) \<in> set (columns df_cadena_vacia)"
    by (simp add: df_cadena_vacia_def)
  have b4: "todos_nulos (Cadena [])"
    by (simp add: todos_nulos_def)
  have b5: "len_serie (Cadena []) = 0"
    by (simp add: len_serie_def)
  have A: "\<lparr> rep_Columna = ''s'', rep_Categorias_unicas = 0, rep_Top_5_valores = [] \<rparr>
       \<in> set (fst (snd (resumen_por_tipo df_cadena_nula)))"
    using all_null_string_column [OF a1 a2 a3 a4] a5
    by (simp split: prod.splits)
  have B: "\<lparr> uni_Columna = ''s'', uni_Valores_no_nulos = 0, uni_Nulos = 0,
       uni_Valores_unicos = 0 \<rparr> \<in> set (snd (snd (resumen_por_tipo df_cadena_vacia)))"
    using all_null_string_column [OF b1 b2 a3 b4] b5
    by (simp split: prod.splits)
  from a1 a2 a3 a4 a5 A b1 b2 b4 b5 B show ?thesis by blast
qed

section \<open>Numeric columns\<close>








section \<open>The top values of a categorical column\<close>











section \<open>Failures of the catalog client and of the loader\<close>





section \<open>Resolving the size of a resource\<close>




end
